theory Spec2Isabelle
  imports Main "HOL-Library.Product_Lexorder" "HOL-Library.Multiset"
begin

section \<open>Temporary e-mail aliases: the table, the provider and the handlers of main.go\<close>

text \<open>
  The program keeps one SQLite table \<open>emails\<close> and talks to Cloudflare's e-mail routing
  API. Every handler is a function from the table (and what the outside world answers) to
  an HTTP response and the new table.

  \<^item> A timestamp is the instant it denotes, as a whole number of seconds, the
    resolution of SQLite's \<open>datetime()\<close>; \<open>'+1 hour'\<close> and Go's \<open>1 * time.Hour\<close> are
    3600. SQLite keeps a timestamp as text and compares texts byte by byte; where the
    code compares, the model compares what the texts read (\<open>wall_clock\<close>).
  \<^item> The table is the list of its rows in insertion order. The file itself does not
    fail: a statement fails only when the code's own use of the pooled handle makes it
    fail (\<open>db_Exec\<close>), so the branches that only report a failed \<open>db.Query\<close> or
    \<open>INSERT\<close> are left out; a lookup that finds no row is modelled. \<open>PRIMARY KEY\<close>
    is the predicate \<open>primary_key\<close>, which every event keeps (\<open>primary_key_serve\<close>).
    No statement removes a row.
  \<^item> Column \<open>expires_at\<close> is nullable (it is added by a migration, and the listing
    reads it through \<open>IFNULL\<close>), so it is an option. The other columns are only ever
    written with Go strings or defaults and are never NULL.
  \<^item> The \<open>id\<close> query parameter is bound to \<open>WHERE id = ?\<close>; a parameter that denotes
    no integer matches no row, exactly like an integer that no row has, so the handlers
    take the integer.
  \<^item> The clock (\<open>time.Now()\<close>, \<open>datetime('now')\<close>, \<open>CURRENT_TIMESTAMP\<close>), the random
    alias prefix, the provider's answer to each request and the zone offsets of the
    stored expiry texts are parameters.
\<close>

subsection \<open>Data\<close>

type_synonym datetime = int

text \<open>A row of table \<open>emails\<close> (\<open>initDB\<close>).\<close>

record email_row =
  row_id :: int
  alias_col :: string
  rule_id :: string
  created_at :: datetime
  expires_at :: "datetime option"
  status :: string

text \<open>\<open>type EmailEntry struct\<close>: what \<open>handleIndex\<close> scans a row into.\<close>

record EmailEntry =
  ID :: int
  Alias :: string
  RuleID :: string
  CreatedAt :: datetime
  ExpiresAt :: datetime
  Status :: string

record CFMatcher =
  MatcherType :: string
  Field :: string
  MatcherValue :: string

record CFAction =
  ActionType :: string
  ActionValue :: "string list"

record CFRequest =
  Matchers :: "CFMatcher list"
  Actions :: "CFAction list"
  Enabled :: bool
  Name :: string

text \<open>
  \<open>type CFResponse struct\<close>, as \<open>json.Unmarshal\<close> leaves it: a body that is not JSON
  leaves the zero value (\<open>Success = False\<close>, empty id, no errors). The code reads a
  message of \<open>Errors\<close> only through \<open>fmt.Errorf(message)\<close>, which takes it as a format
  string and rewrites every \<open>%\<close> verb in it; \<open>Errors\<close> holds each message as
  \<open>fmt.Errorf\<close> renders it.
\<close>

record CFResponse =
  Success :: bool
  Result_ID :: string
  Errors :: "string list"

text \<open>The body handed to \<open>callCFAPI\<close>: a rule, the map \<open>{"enabled": b}\<close>, or nil.\<close>

datatype cf_body = RuleBody CFRequest | EnabledBody bool

record cf_call =
  call_method :: string
  call_url :: string
  call_body :: "cf_body option"

text \<open>What \<open>client.Do\<close> gives back: a transport error, or a response body.\<close>

datatype cf_reply = TransportError string | Reply CFResponse

type_synonym provider = "cf_call \<Rightarrow> cf_reply"

text \<open>The environment variables the handlers read.\<close>

record env =
  CF_EMAIL_DOMAIN :: string
  CF_DESTINATION_EMAIL :: string
  CF_ZONE_ID :: string

text \<open>
  What a handler writes: \<open>http.Redirect\<close>, \<open>http.Error\<close>, or the rendered list.
\<close>

datatype response =
  Redirect string nat
| HttpError string nat
| Page "EmailEntry list"

subsection \<open>Cloudflare helpers\<close>

text \<open>
  \<open>callCFAPI\<close> returns \<open>(string, error)\<close>: \<open>Inl\<close> is the error's text, \<open>Inr\<close> the rule
  id. A response without \<open>success\<close> is an error for every method but \<open>DELETE\<close>. The
  text of the error is the provider's first message as \<open>fmt.Errorf\<close> renders it, or
  the fixed text, which holds no \<open>%\<close>. The URL is taken to parse, so that
  \<open>http.NewRequest\<close> returns a request: the code drops its error and would panic on the
  nil request, which is no return of \<open>callCFAPI\<close> at all.
\<close>

definition callCFAPI :: "provider \<Rightarrow> string \<Rightarrow> string \<Rightarrow> cf_body option \<Rightarrow> string + string" where
  "callCFAPI cf method url body =
     (case cf \<lparr>call_method = method, call_url = url, call_body = body\<rparr> of
        TransportError err \<Rightarrow> Inl err
      | Reply cfResp \<Rightarrow>
          if \<not> Success cfResp \<and> method \<noteq> ''DELETE'' then
            (if length (Errors cfResp) > 0 then Inl (hd (Errors cfResp))
             else Inl ''unknown error from cloudflare'')
          else Inr (Result_ID cfResp))"

definition rules_url :: "env \<Rightarrow> string" where
  "rules_url e =
     ''https://api.cloudflare.com/client/v4/zones/'' @ CF_ZONE_ID e @ ''/email/routing/rules''"

definition createCFRule :: "env \<Rightarrow> provider \<Rightarrow> string \<Rightarrow> bool \<Rightarrow> string + string" where
  "createCFRule e cf email enabled =
     (let dest = CF_DESTINATION_EMAIL e;
          reqBody = \<lparr>Matchers = [\<lparr>MatcherType = ''literal'', Field = ''to'', MatcherValue = email\<rparr>],
                     Actions = [\<lparr>ActionType = ''forward'', ActionValue = [dest]\<rparr>],
                     Enabled = enabled,
                     Name = ''TempMail-'' @ email\<rparr>
      in callCFAPI cf ''POST'' (rules_url e) (Some (RuleBody reqBody)))"

text \<open>\<open>updateCFRule\<close> and \<open>deleteCFRule\<close> return only the error: \<open>None\<close> is nil.\<close>

definition updateCFRule :: "env \<Rightarrow> provider \<Rightarrow> string \<Rightarrow> bool \<Rightarrow> string option" where
  "updateCFRule e cf ruleID enabled =
     (case callCFAPI cf ''PATCH'' (rules_url e @ ''/'' @ ruleID) (Some (EnabledBody enabled)) of
        Inl err \<Rightarrow> Some err
      | Inr _ \<Rightarrow> None)"

definition deleteCFRule :: "env \<Rightarrow> provider \<Rightarrow> string \<Rightarrow> string option" where
  "deleteCFRule e cf ruleID =
     (case callCFAPI cf ''DELETE'' (rules_url e @ ''/'' @ ruleID) None of
        Inl err \<Rightarrow> Some err
      | Inr _ \<Rightarrow> None)"

subsection \<open>The SQL statements\<close>

definition primary_key :: "email_row list \<Rightarrow> bool" where
  "primary_key db = distinct (map row_id db)"

text \<open>\<open>db.QueryRow("SELECT ... FROM emails WHERE id = ?")\<close>: the row, or no row.\<close>

definition query_row :: "email_row list \<Rightarrow> int \<Rightarrow> email_row option" where
  "query_row db i = find (\<lambda>r. row_id r = i) db"

text \<open>
  \<open>INSERT INTO emails (alias, rule_id, status, expires_at) VALUES (?, ?, 'active', ?)\<close>:
  \<open>AUTOINCREMENT\<close> gives the next id above every id in the table, and \<open>created_at\<close>
  defaults to \<open>CURRENT_TIMESTAMP\<close>, here \<open>ts\<close>.
\<close>

definition next_id :: "email_row list \<Rightarrow> int" where
  "next_id db = fold max (map row_id db) 0 + 1"

definition insert_email :: "email_row list \<Rightarrow> string \<Rightarrow> string \<Rightarrow> datetime \<Rightarrow> datetime \<Rightarrow> email_row list" where
  "insert_email db fullEmail ruleID expiresAt ts =
     db @ [\<lparr>row_id = next_id db, alias_col = fullEmail, rule_id = ruleID, created_at = ts,
            expires_at = Some expiresAt, status = ''active''\<rparr>]"

text \<open>\<open>UPDATE emails SET status = 'deleted', rule_id = '' WHERE id = ?\<close>\<close>

definition mark_deleted :: "email_row list \<Rightarrow> int \<Rightarrow> email_row list" where
  "mark_deleted db i =
     map (\<lambda>r. if row_id r = i then r\<lparr>status := ''deleted'', rule_id := ''''\<rparr> else r) db"

text \<open>\<open>UPDATE emails SET status = ? WHERE id = ?\<close>\<close>

definition set_status :: "email_row list \<Rightarrow> string \<Rightarrow> int \<Rightarrow> email_row list" where
  "set_status db newStatus i =
     map (\<lambda>r. if row_id r = i then r\<lparr>status := newStatus\<rparr> else r) db"

text \<open>
  \<open>UPDATE emails SET expires_at = datetime(expires_at, '+1 hour')
   WHERE id = ? AND status = 'active'\<close>; \<open>datetime\<close> reads the stored text with its
  offset, so the hour is added to the instant; \<open>datetime\<close> of NULL is NULL.
\<close>

definition extend_expiry :: "email_row list \<Rightarrow> int \<Rightarrow> email_row list" where
  "extend_expiry db i =
     map (\<lambda>r. if row_id r = i \<and> status r = ''active''
               then r\<lparr>expires_at := map_option (\<lambda>t. t + 3600) (expires_at r)\<rparr> else r) db"

text \<open>\<open>UPDATE emails SET status = 'active', rule_id = ?, expires_at = ? WHERE id = ?\<close>\<close>

definition reset_active :: "email_row list \<Rightarrow> string \<Rightarrow> datetime \<Rightarrow> int \<Rightarrow> email_row list" where
  "reset_active db ruleID expiresAt i =
     map (\<lambda>r. if row_id r = i
               then r\<lparr>status := ''active'', rule_id := ruleID, expires_at := Some expiresAt\<rparr>
               else r) db"

subsection \<open>The pooled handle\<close>

text \<open>
  \<open>db\<close> is a \<open>*sql.DB\<close>, a pool of connections. \<open>db.Query\<close> keeps its connection, and
  with it the read lock of the database file, until its rows are closed; a \<open>db.Exec\<close>
  issued meanwhile runs on another connection, and SQLite lets no connection commit a
  write while another one reads. So with \<open>open_rows\<close>, the statement changes nothing and
  \<open>db.Exec\<close> returns the error \<open>database is locked\<close>; otherwise it takes effect.

  In the handlers no rows are open when \<open>db.Exec\<close> runs (\<open>QueryRow(...).Scan\<close> closes
  them), so their statements are applied as they stand. The loop of
  \<open>checkExpiredEmails\<close> runs its \<open>UPDATE\<close> between two \<open>rows.Next()\<close>, with the rows of
  its \<open>SELECT\<close> open until the deferred \<open>rows.Close()\<close>.
\<close>

definition db_Exec ::
  "bool \<Rightarrow> (email_row list \<Rightarrow> email_row list) \<Rightarrow> email_row list \<Rightarrow> string + email_row list" where
  "db_Exec open_rows stmt db =
     (if open_rows then Inl ''database is locked'' else Inr (stmt db))"

subsection \<open>The cleanup worker\<close>

text \<open>
  The text of \<open>expires_at\<close>. A \<open>time.Time\<close> bound to \<open>?\<close> (\<open>handleGenerate\<close>,
  \<open>handleRecreate\<close>) is written by the driver as the local wall-clock reading followed
  by the zone offset, \<open>2006-01-02 15:04:05.999999999-07:00\<close>; \<open>datetime(...)\<close>
  (\<open>handleRenew\<close>, and \<open>datetime('now')\<close>) writes the UTC reading and no offset. For the
  row with id \<open>k\<close>, \<open>zone k\<close> is the offset of the stored text in seconds east of UTC, 0
  for a text that SQLite wrote. An expiry at instant \<open>t\<close> is stored as the text that
  reads \<open>t + zone k\<close>.
\<close>

definition wall_clock :: "(int \<Rightarrow> int) \<Rightarrow> email_row \<Rightarrow> datetime option" where
  "wall_clock zone r = map_option (\<lambda>t. t + zone (row_id r)) (expires_at r)"

text \<open>
  \<open>SELECT id, rule_id, alias FROM emails
   WHERE status = 'active' AND expires_at < datetime('now')\<close>.
  Both sides of \<open><\<close> are texts and are compared byte by byte: the leading
  \<open>YYYY-MM-DD HH:MM:SS\<close> decides, the stored reading against the UTC reading \<open>now\<close>,
  and with equal readings the stored text is not the smaller one. The offset that
  follows the reading plays no part. A NULL \<open>expires_at\<close> compares as not true.
\<close>

definition is_expired_active :: "(int \<Rightarrow> int) \<Rightarrow> datetime \<Rightarrow> email_row \<Rightarrow> bool" where
  "is_expired_active zone now r =
     (status r = ''active''
      \<and> (case wall_clock zone r of None \<Rightarrow> False | Some w \<Rightarrow> w < now))"

definition select_expired ::
  "(int \<Rightarrow> int) \<Rightarrow> datetime \<Rightarrow> email_row list \<Rightarrow> (int \<times> string \<times> string) list" where
  "select_expired zone now db =
     map (\<lambda>r. (row_id r, rule_id r, alias_col r)) (filter (is_expired_active zone now) db)"

text \<open>
  The body of the loop \<open>for rows.Next()\<close>: the provider is asked to delete the rule when
  there is one and its answer is dropped; then the \<open>UPDATE\<close> is sent with the rows still
  open, and its error is dropped too.
\<close>

definition expire_one :: "env \<Rightarrow> provider \<Rightarrow> email_row list \<Rightarrow> int \<times> string \<times> string \<Rightarrow> email_row list" where
  "expire_one e cf db row =
     (case row of (i, ruleID, _) \<Rightarrow>
        let _ = (if ruleID \<noteq> '''' then deleteCFRule e cf ruleID else None)
        in (case db_Exec True (\<lambda>d. mark_deleted d i) db of
              Inl _ \<Rightarrow> db
            | Inr db' \<Rightarrow> db'))"

definition checkExpiredEmails ::
  "env \<Rightarrow> provider \<Rightarrow> (int \<Rightarrow> int) \<Rightarrow> datetime \<Rightarrow> email_row list \<Rightarrow> email_row list" where
  "checkExpiredEmails e cf zone now db =
     foldl (expire_one e cf) db (select_expired zone now db)"

subsection \<open>Handlers\<close>

text \<open>
  \<open>ORDER BY CASE WHEN status='active' THEN 1 ELSE 2 END, created_at DESC\<close>: the rows
  sorted by the pair of keys, the second negated for \<open>DESC\<close>. Every \<open>created_at\<close> is a
  \<open>CURRENT_TIMESTAMP\<close>, UTC text of one form, so the order of the texts is the order of
  the instants.
\<close>

definition order_key :: "email_row \<Rightarrow> nat \<times> int" where
  "order_key r = (if status r = ''active'' then 1 else 2, - created_at r)"

text \<open>The zero \<open>time.Time\<close>, 0001-01-01 00:00:00 UTC, in seconds from 1970.\<close>

definition zero_time :: datetime where
  "zero_time = - 62135596800"

text \<open>
  \<open>rows.Scan(&e.ID, &e.Alias, &e.RuleID, &e.CreatedAt, &e.ExpiresAt, &e.Status)\<close> on a
  fresh \<open>e\<close>. \<open>Scan\<close> fills its destinations from the left and returns at the first
  column it cannot convert. The first four are columns of the table and convert. The
  fifth is the expression \<open>IFNULL(expires_at, created_at)\<close>: it has no declared type, the
  driver hands it over as text, and text does not convert into a \<open>time.Time\<close>. So
  \<open>Scan\<close> returns there, \<open>ExpiresAt\<close> and \<open>Status\<close> keep the zero values of \<open>e\<close>, and
  the handler drops the error and appends \<open>e\<close>.
\<close>

definition scan_entry :: "email_row \<Rightarrow> EmailEntry" where
  "scan_entry r =
     \<lparr>ID = row_id r, Alias = alias_col r, RuleID = rule_id r, CreatedAt = created_at r,
      ExpiresAt = zero_time, Status = ''''\<rparr>"

text \<open>\<open>tmpl\<close> is the error of \<open>template.ParseFiles\<close>, if any.\<close>

definition handleIndex :: "string option \<Rightarrow> email_row list \<Rightarrow> response" where
  "handleIndex tmpl db =
     (case tmpl of
        Some err \<Rightarrow> HttpError err 500
      | None \<Rightarrow> Page (map scan_entry (sort_key order_key db)))"

text \<open>
  \<open>aliasPrefix\<close> is what \<open>generateRandomString(8)\<close> drew, \<open>now\<close> is \<open>time.Now()\<close> and
  \<open>ts\<close> the \<open>CURRENT_TIMESTAMP\<close> of the insert.
\<close>

definition handleGenerate ::
  "env \<Rightarrow> provider \<Rightarrow> string \<Rightarrow> string \<Rightarrow> datetime \<Rightarrow> datetime \<Rightarrow> email_row list
     \<Rightarrow> response \<times> email_row list" where
  "handleGenerate e cf method aliasPrefix now ts db =
     (if method \<noteq> ''POST'' then (HttpError ''Method not allowed'' 405, db)
      else
        let domain = CF_EMAIL_DOMAIN e;
            fullEmail = aliasPrefix @ ''@'' @ domain
        in case createCFRule e cf fullEmail True of
             Inl err \<Rightarrow> (HttpError (''Erro Cloudflare: '' @ err) 500, db)
           | Inr ruleID \<Rightarrow>
               let expiresAt = now + 3600
               in (Redirect ''/'' 303, insert_email db fullEmail ruleID expiresAt ts))"

definition handleRenew :: "email_row list \<Rightarrow> int \<Rightarrow> response \<times> email_row list" where
  "handleRenew db i = (Redirect ''/'' 303, extend_expiry db i)"

definition handleToggle :: "env \<Rightarrow> provider \<Rightarrow> email_row list \<Rightarrow> int \<Rightarrow> response \<times> email_row list" where
  "handleToggle e cf db i =
     (case query_row db i of
        None \<Rightarrow> (HttpError ''sql: no rows in result set'' 500, db)
      | Some r \<Rightarrow>
          let ruleID = rule_id r;
              newStatus = (if status r = ''active'' then ''inactive'' else ''active'');
              cfEnabled = (if status r = ''active'' then False else True)
          in (case updateCFRule e cf ruleID cfEnabled of
                Some err \<Rightarrow> (HttpError (''Erro ao atualizar CF: '' @ err) 500, db)
              | None \<Rightarrow> (Redirect ''/'' 303, set_status db newStatus i)))"

text \<open>When no row has the id, \<open>Scan\<close> fails, the error is dropped and \<open>ruleID\<close> stays empty.\<close>

definition handleDelete :: "env \<Rightarrow> provider \<Rightarrow> email_row list \<Rightarrow> int \<Rightarrow> response \<times> email_row list" where
  "handleDelete e cf db i =
     (let ruleID = (case query_row db i of None \<Rightarrow> '''' | Some r \<Rightarrow> rule_id r);
          _ = (if ruleID \<noteq> '''' then deleteCFRule e cf ruleID else None)
      in (Redirect ''/'' 303, mark_deleted db i))"

definition handleRecreate ::
  "env \<Rightarrow> provider \<Rightarrow> datetime \<Rightarrow> email_row list \<Rightarrow> int \<Rightarrow> response \<times> email_row list" where
  "handleRecreate e cf now db i =
     (let alias' = (case query_row db i of None \<Rightarrow> '''' | Some r \<Rightarrow> alias_col r)
      in case createCFRule e cf alias' True of
           Inl err \<Rightarrow> (HttpError (''Erro ao recriar: '' @ err) 500, db)
         | Inr ruleID \<Rightarrow>
             let expiresAt = now + 3600
             in (Redirect ''/'' 303, reset_active db ruleID expiresAt i))"

subsection \<open>The server\<close>

text \<open>
  \<open>main\<close> routes each request to its handler and starts the ticker of
  \<open>startCleanupWorker\<close>, which calls \<open>checkExpiredEmails\<close>. An event is one routed
  request that can write the table, or one tick (with the zones of the stored texts and
  the time); \<open>serve\<close> is the table after it.
\<close>

datatype event =
  Generate string string datetime datetime
| Toggle int
| Delete int
| Recreate datetime int
| Renew int
| Tick "int \<Rightarrow> int" datetime

fun serve :: "env \<Rightarrow> provider \<Rightarrow> event \<Rightarrow> email_row list \<Rightarrow> email_row list" where
  "serve e cf (Generate method aliasPrefix now ts) db =
     snd (handleGenerate e cf method aliasPrefix now ts db)"
| "serve e cf (Toggle i) db = snd (handleToggle e cf db i)"
| "serve e cf (Delete i) db = snd (handleDelete e cf db i)"
| "serve e cf (Recreate now i) db = snd (handleRecreate e cf now db i)"
| "serve e cf (Renew i) db = snd (handleRenew db i)"
| "serve e cf (Tick zone now) db = checkExpiredEmails e cf zone now db"

text \<open>
  The statement that writes \<open>status = 'deleted'\<close> writes \<open>rule_id = ''\<close> with it, so in
  every table the program has written, a deleted row has no rule id.
\<close>

definition deleted_cleared :: "email_row list \<Rightarrow> bool" where
  "deleted_cleared db = (\<forall>r \<in> set db. status r = ''deleted'' \<longrightarrow> rule_id r = '''')"

subsection \<open>Sample data\<close>

text \<open>
  A small table and three providers, used to run the handlers on concrete input: a row
  from before the expiry column existed, a deleted row and an active row; a provider that
  accepts every request, one that cannot be reached, and one that answers success without
  a rule id.
\<close>

definition env0 :: env where
  "env0 = \<lparr>CF_EMAIL_DOMAIN = ''example.com'', CF_DESTINATION_EMAIL = ''me@example.org'',
            CF_ZONE_ID = ''z1''\<rparr>"

definition cf_ok :: provider where
  "cf_ok c = Reply \<lparr>Success = True, Result_ID = ''rule-9'', Errors = []\<rparr>"

definition cf_down :: provider where
  "cf_down c = TransportError ''timeout''"

definition cf_no_id :: provider where
  "cf_no_id c = Reply \<lparr>Success = True, Result_ID = '''', Errors = []\<rparr>"

definition row_n :: email_row where
  "row_n = \<lparr>row_id = 1, alias_col = ''legacy00@example.com'', rule_id = ''rule-1'',
             created_at = 100, expires_at = None, status = ''active''\<rparr>"

definition row_d :: email_row where
  "row_d = \<lparr>row_id = 2, alias_col = ''old00000@example.com'', rule_id = '''',
             created_at = 500, expires_at = Some 4100, status = ''deleted''\<rparr>"

definition row_a :: email_row where
  "row_a = \<lparr>row_id = 3, alias_col = ''abc12345@example.com'', rule_id = ''rule-3'',
             created_at = 1000, expires_at = Some 4600, status = ''active''\<rparr>"

definition db0 :: "email_row list" where
  "db0 = [row_n, row_d, row_a]"

text \<open>
  The zones of the stored texts: of a process that runs in UTC, and of one that runs
  three hours west of it, where every expiry it wrote ends in \<open>-03:00\<close>.
\<close>

definition zone_utc :: "int \<Rightarrow> int" where
  "zone_utc k = 0"

definition zone_west :: "int \<Rightarrow> int" where
  "zone_west k = - 10800"

text \<open>The row that \<open>handleGenerate\<close> inserts into the empty table at 5000.\<close>

definition row_f :: email_row where
  "row_f = \<lparr>row_id = 1, alias_col = ''abcdefgh@example.com'', rule_id = ''rule-9'',
             created_at = 5000, expires_at = Some 8600, status = ''active''\<rparr>"

section \<open>Properties\<close>

subsection \<open>Lookups and updates\<close>

lemma query_row_None: "k \<notin> row_id ` set db \<Longrightarrow> query_row db k = None"
  by (auto simp: query_row_def find_None_iff)

lemma query_row_Some: "query_row db k = Some r \<Longrightarrow> r \<in> set db \<and> row_id r = k"
  by (auto simp: query_row_def find_Some_iff)

lemma primary_key_unique:
  "primary_key db \<Longrightarrow> x \<in> set db \<Longrightarrow> y \<in> set db \<Longrightarrow> row_id x = row_id y \<Longrightarrow> x = y"
  by (auto simp: primary_key_def distinct_map dest: inj_onD)

lemma query_row_nth:
  assumes "primary_key db" and "i < length db"
  shows "query_row db (row_id (db ! i)) = Some (db ! i)"
proof (cases "query_row db (row_id (db ! i))")
  case None
  with nth_mem [OF assms(2)] show ?thesis
    by (auto simp: query_row_def find_None_iff)
next
  case (Some r)
  then have "r \<in> set db" "row_id r = row_id (db ! i)"
    by (auto dest: query_row_Some)
  with assms(1) nth_mem [OF assms(2)] have "r = db ! i"
    by (auto dest: primary_key_unique)
  with Some show ?thesis by simp
qed

lemma query_row_mem:
  assumes "primary_key db" and "r \<in> set db"
  shows "query_row db (row_id r) = Some r"
proof -
  from assms(2) obtain i where "i < length db" "db ! i = r"
    by (auto simp: in_set_conv_nth)
  with query_row_nth [OF assms(1), of i] show ?thesis by simp
qed

lemma mark_deleted_absent: "k \<notin> row_id ` set db \<Longrightarrow> mark_deleted db k = db"
  unfolding mark_deleted_def by (rule map_idI) auto

lemma extend_expiry_absent: "k \<notin> row_id ` set db \<Longrightarrow> extend_expiry db k = db"
  unfolding extend_expiry_def by (rule map_idI) auto

lemma mark_deleted_nth:
  "i < length db \<Longrightarrow> mark_deleted db k ! i =
     (if row_id (db ! i) = k then (db ! i)\<lparr>status := ''deleted'', rule_id := ''''\<rparr> else db ! i)"
  by (simp add: mark_deleted_def)

lemma extend_expiry_nth:
  "i < length db \<Longrightarrow> extend_expiry db k ! i =
     (if row_id (db ! i) = k \<and> status (db ! i) = ''active''
      then (db ! i)\<lparr>expires_at := map_option (\<lambda>t. t + 3600) (expires_at (db ! i))\<rparr>
      else db ! i)"
  by (simp add: extend_expiry_def)

lemma query_row_set_status:
  "query_row (set_status db s k) k = map_option (\<lambda>r. r\<lparr>status := s\<rparr>) (query_row db k)"
  by (induction db) (auto simp: query_row_def set_status_def)

lemma set_status_restore:
  assumes "primary_key db" and "query_row db k = Some r"
  shows "set_status (set_status db s k) (status r) k = db"
proof -
  have "(if row_id x = k then x\<lparr>status := status r\<rparr> else x) = x" if "x \<in> set db" for x
  proof (cases "row_id x = k")
    case True
    with assms that have "x = r"
      by (auto dest: query_row_Some primary_key_unique)
    then show ?thesis by simp
  next
    case False
    then show ?thesis by simp
  qed
  then have "map (\<lambda>x. if row_id x = k then x\<lparr>status := status r\<rparr> else x) db = db"
    by (intro map_idI)
  moreover have "set_status (set_status db s k) (status r) k
      = map (\<lambda>x. if row_id x = k then x\<lparr>status := status r\<rparr> else x) db"
    by (simp add: set_status_def)
  ultimately show ?thesis by simp
qed

subsection \<open>Fresh ids\<close>

lemma fold_max_ge: "a \<le> fold max xs (a::int)"
proof (induction xs arbitrary: a)
  case Nil
  then show ?case by simp
next
  case (Cons y ys)
  have "a \<le> max y a" by simp
  also have "\<dots> \<le> fold max ys (max y a)" by (rule Cons.IH)
  finally show ?case by simp
qed

lemma fold_max_mem: "x \<in> set xs \<Longrightarrow> x \<le> fold max xs (a::int)"
proof (induction xs arbitrary: a)
  case Nil
  then show ?case by simp
next
  case (Cons y ys)
  show ?case
  proof (cases "x = y")
    case True
    have "y \<le> max y a" by simp
    also have "\<dots> \<le> fold max ys (max y a)" by (rule fold_max_ge)
    finally show ?thesis using True by simp
  next
    case False
    with Cons.prems have "x \<in> set ys" by simp
    then show ?thesis by (simp add: Cons.IH)
  qed
qed

lemma next_id_fresh: "next_id db \<notin> row_id ` set db"
proof
  assume "next_id db \<in> row_id ` set db"
  then have "next_id db \<in> set (map row_id db)" by simp
  then have "next_id db \<le> fold max (map row_id db) 0" by (rule fold_max_mem)
  then show False by (simp add: next_id_def)
qed

subsection \<open>A tick of the cleanup worker\<close>

lemma expire_one_locked: "expire_one e cf db row = db"
  by (cases row) (simp add: expire_one_def db_Exec_def)

lemma sweep_fold: "foldl (expire_one e cf) db rows = db"
  by (induction rows) (simp_all add: expire_one_locked)

lemma checkExpiredEmails_locked: "checkExpiredEmails e cf zone now db = db"
  by (simp add: checkExpiredEmails_def sweep_fold)

lemma select_expired_ids:
  "fst ` set (select_expired zone now db) = row_id ` {r \<in> set db. is_expired_active zone now r}"
  by (auto simp: select_expired_def image_iff)

text \<open>
  What the query does give: every triple it returns is the id, rule id and alias of an
  active row whose stored text reads a time before \<open>now\<close>; when every text is in UTC,
  that is an expiry before \<open>now\<close>.
\<close>

lemma select_expired_reading:
  assumes "(k, ruleID, a) \<in> set (select_expired zone now db)"
  shows "\<exists>r \<in> set db. row_id r = k \<and> rule_id r = ruleID \<and> alias_col r = a
           \<and> status r = ''active'' \<and> (\<exists>t. expires_at r = Some t \<and> t + zone k < now)"
  using assms
  by (auto simp: select_expired_def is_expired_active_def wall_clock_def split: option.splits)

lemma select_expired_utc:
  assumes "(k, ruleID, a) \<in> set (select_expired (\<lambda>_. 0) now db)"
  shows "\<exists>r \<in> set db. row_id r = k \<and> rule_id r = ruleID \<and> alias_col r = a
           \<and> status r = ''active'' \<and> (\<exists>t. expires_at r = Some t \<and> t < now)"
  using select_expired_reading [OF assms] by simp

text \<open>
  \<open>handleDelete\<close> runs the same \<open>UPDATE\<close> with no rows open: whatever the provider
  answers, the row of that id ends deleted and without a rule id.
\<close>

lemma handleDelete_clears_row:
  assumes "i < length db" and "row_id (db ! i) = k"
  shows "fst (handleDelete e cf db k) = Redirect ''/'' 303
       \<and> length (snd (handleDelete e cf db k)) = length db
       \<and> status (snd (handleDelete e cf db k) ! i) = ''deleted''
       \<and> rule_id (snd (handleDelete e cf db k) ! i) = ''''"
proof -
  have "snd (handleDelete e cf db k) = mark_deleted db k"
    and "fst (handleDelete e cf db k) = Redirect ''/'' 303"
    by (simp_all add: handleDelete_def Let_def)
  moreover have "length (mark_deleted db k) = length db"
    by (simp add: mark_deleted_def)
  ultimately show ?thesis
    using assms by (simp add: mark_deleted_nth)
qed

subsection \<open>What every event keeps\<close>

lemma row_ids_updates:
  "map row_id (mark_deleted db k) = map row_id db"
  "map row_id (set_status db s k) = map row_id db"
  "map row_id (extend_expiry db k) = map row_id db"
  "map row_id (reset_active db ruleID t k) = map row_id db"
  by (simp_all add: mark_deleted_def set_status_def extend_expiry_def reset_active_def comp_def
      if_distrib [of row_id])

lemma row_ids_sweep: "map row_id (checkExpiredEmails e cf zone now db) = map row_id db"
  by (simp add: checkExpiredEmails_locked)

lemma primary_key_insert: "primary_key db \<Longrightarrow> primary_key (insert_email db a ruleID t ts)"
  using next_id_fresh [of db] by (simp add: primary_key_def insert_email_def)

lemma primary_key_serve: "primary_key db \<Longrightarrow> primary_key (serve e cf ev db)"
proof (cases ev)
  case (Generate m a now ts)
  then show "primary_key db \<Longrightarrow> ?thesis"
    by (auto simp: handleGenerate_def Let_def primary_key_insert split: sum.splits)
next
  case (Toggle k)
  then show "primary_key db \<Longrightarrow> ?thesis"
    by (auto simp: handleToggle_def Let_def primary_key_def row_ids_updates split: option.splits)
next
  case (Recreate now k)
  then show "primary_key db \<Longrightarrow> ?thesis"
    by (auto simp: handleRecreate_def Let_def primary_key_def row_ids_updates split: sum.splits)
qed (simp_all add: handleDelete_def handleRenew_def Let_def primary_key_def row_ids_updates
    row_ids_sweep)

lemma deleted_cleared_updates:
  "deleted_cleared db \<Longrightarrow> deleted_cleared (mark_deleted db k)"
  "deleted_cleared db \<Longrightarrow> s \<noteq> ''deleted'' \<Longrightarrow> deleted_cleared (set_status db s k)"
  "deleted_cleared db \<Longrightarrow> deleted_cleared (extend_expiry db k)"
  "deleted_cleared db \<Longrightarrow> deleted_cleared (reset_active db ruleID t k)"
  "deleted_cleared db \<Longrightarrow> deleted_cleared (insert_email db a ruleID t ts)"
  by (auto simp: deleted_cleared_def mark_deleted_def set_status_def extend_expiry_def
      reset_active_def insert_email_def)

lemma deleted_cleared_sweep:
  "deleted_cleared db \<Longrightarrow> deleted_cleared (checkExpiredEmails e cf zone now db)"
  by (simp add: checkExpiredEmails_locked)

lemma deleted_cleared_serve: "deleted_cleared db \<Longrightarrow> deleted_cleared (serve e cf ev db)"
proof (cases ev)
  case (Generate m a now ts)
  then show "deleted_cleared db \<Longrightarrow> ?thesis"
    by (auto simp: handleGenerate_def Let_def deleted_cleared_updates split: sum.splits)
next
  case (Toggle k)
  then show "deleted_cleared db \<Longrightarrow> ?thesis"
    by (auto simp: handleToggle_def Let_def deleted_cleared_updates split: option.splits)
next
  case (Recreate now k)
  then show "deleted_cleared db \<Longrightarrow> ?thesis"
    by (auto simp: handleRecreate_def Let_def deleted_cleared_updates split: sum.splits)
qed (simp_all add: handleDelete_def handleRenew_def Let_def deleted_cleared_updates
    deleted_cleared_sweep)

lemma deleted_cleared_empty: "deleted_cleared []"
  by (simp add: deleted_cleared_def)

lemma order_key_le:
  "order_key a \<le> order_key b \<longleftrightarrow>
     (status a = ''active'' \<and> status b \<noteq> ''active'')
     \<or> ((status a = ''active'') = (status b = ''active'') \<and> created_at b \<le> created_at a)"
  by (auto simp: order_key_def)

text \<open>What the page shows of a row: its id, alias, rule id and creation time only.\<close>

lemma index_entries_unscanned:
  assumes "handleIndex tmpl db = Page es" and "x \<in> set es"
  shows "Status x = '''' \<and> ExpiresAt x = zero_time"
  using assms by (auto simp: handleIndex_def scan_entry_def split: option.splits)

section \<open>The properties of the specification\<close>

subsection \<open>Deleted rows\<close>

text \<open>
  C1, as stated, fails: \<open>handleRecreate\<close> has no test of the row's status, so on a
  deleted row whose \<open>createCFRule\<close> call succeeds it writes \<open>status = 'active'\<close>, the new
  rule id and a new expiry. Here row 2 of the sample table is deleted and comes back
  active.
\<close>

theorem recreate_revives_deleted_counterexample:
  "query_row db0 2 = Some row_d \<and> status row_d = ''deleted''
   \<and> handleRecreate env0 cf_ok 5000 db0 2
       = (Redirect ''/'' 303,
          [row_n,
           \<lparr>row_id = 2, alias_col = ''old00000@example.com'', rule_id = ''rule-9'',
            created_at = 500, expires_at = Some 8600, status = ''active''\<rparr>,
           row_a])"
  by (simp add: handleRecreate_def query_row_def createCFRule_def callCFAPI_def cf_ok_def
      reset_active_def db0_def row_a_def row_d_def row_n_def)

text \<open>
  C1, amended. Take a row whose status is \<open>deleted\<close> (its rule id is then empty, see
  \<open>deleted_cleared_serve\<close>) in a table with distinct ids. No field of the row is changed
  by \<open>handleRenew\<close>, by \<open>handleDelete\<close>, or by a tick of the cleanup worker, whatever id
  they are called with and whatever the provider answers; nor by \<open>handleToggle\<close> or
  \<open>handleRecreate\<close> called with another id or with a provider whose call fails.
  \<open>handleRecreate\<close> called with the row's id and a provider that creates the rule sets
  the row to \<open>active\<close> with the new rule id and an expiry one hour from now.
\<close>

theorem deleted_row_frozen:
  assumes "primary_key db" and "i < length db"
    and "status (db ! i) = ''deleted''" and "rule_id (db ! i) = ''''"
  shows "snd (handleRenew db k) ! i = db ! i
       \<and> snd (handleDelete e cf db k) ! i = db ! i
       \<and> checkExpiredEmails e cf zone now db ! i = db ! i
       \<and> (row_id (db ! i) \<noteq> k \<or> updateCFRule e cf '''' True \<noteq> None
            \<longrightarrow> snd (handleToggle e cf db k) ! i = db ! i)
       \<and> (row_id (db ! i) \<noteq> k \<or> (\<exists>err. createCFRule e cf (alias_col (db ! i)) True = Inl err)
            \<longrightarrow> snd (handleRecreate e cf now db k) ! i = db ! i)
       \<and> (row_id (db ! i) = k \<longrightarrow>
            (\<forall>ruleID. createCFRule e cf (alias_col (db ! i)) True = Inr ruleID \<longrightarrow>
               snd (handleRecreate e cf now db k) ! i
                 = (db ! i)\<lparr>status := ''active'', rule_id := ruleID,
                            expires_at := Some (now + 3600)\<rparr>))"
proof -
  have renew: "snd (handleRenew db k) ! i = db ! i"
    using assms(2,3) by (simp add: handleRenew_def extend_expiry_nth)
  have "(db ! i)\<lparr>status := ''deleted'', rule_id := ''''\<rparr> = db ! i"
    using assms(3,4) by (cases "db ! i") simp
  then have delete: "snd (handleDelete e cf db k) ! i = db ! i"
    using assms(2) by (simp add: handleDelete_def Let_def mark_deleted_nth)
  have sweep: "checkExpiredEmails e cf zone now db ! i = db ! i"
    by (simp add: checkExpiredEmails_locked)
  have toggle: "snd (handleToggle e cf db k) ! i = db ! i"
    if "row_id (db ! i) \<noteq> k \<or> updateCFRule e cf '''' True \<noteq> None"
  proof (cases "row_id (db ! i) = k")
    case True
    with assms(1,2) have "query_row db k = Some (db ! i)" by (auto dest: query_row_nth)
    with that True assms(3,4) show ?thesis
      by (auto simp: handleToggle_def Let_def)
  next
    case False
    with assms(2) show ?thesis
      by (auto simp: handleToggle_def Let_def set_status_def split: option.splits)
  qed
  have recreate_other: "snd (handleRecreate e cf now db k) ! i = db ! i"
    if "row_id (db ! i) \<noteq> k \<or> (\<exists>err. createCFRule e cf (alias_col (db ! i)) True = Inl err)"
  proof (cases "row_id (db ! i) = k")
    case True
    with assms(1,2) have "query_row db k = Some (db ! i)" by (auto dest: query_row_nth)
    with that True show ?thesis
      by (auto simp: handleRecreate_def Let_def)
  next
    case False
    with assms(2) show ?thesis
      by (auto simp: handleRecreate_def Let_def reset_active_def split: sum.splits)
  qed
  have recreate_same: "snd (handleRecreate e cf now db k) ! i
      = (db ! i)\<lparr>status := ''active'', rule_id := ruleID, expires_at := Some (now + 3600)\<rparr>"
    if "row_id (db ! i) = k" "createCFRule e cf (alias_col (db ! i)) True = Inr ruleID" for ruleID
  proof -
    from that(1) assms(1,2) have "query_row db k = Some (db ! i)" by (auto dest: query_row_nth)
    with that assms(2) show ?thesis
      by (simp add: handleRecreate_def Let_def reset_active_def)
  qed
  show ?thesis
    using renew delete sweep toggle recreate_other recreate_same by blast
qed

theorem deleted_row_frozen_witness:
  "primary_key db0 \<and> 1 < length db0 \<and> status (db0 ! 1) = ''deleted'' \<and> rule_id (db0 ! 1) = ''''
   \<and> row_id (db0 ! 1) = 2
   \<and> updateCFRule env0 cf_down '''' True \<noteq> None
   \<and> createCFRule env0 cf_ok (alias_col (db0 ! 1)) True = Inr ''rule-9''
   \<and> snd (handleRenew db0 2) ! 1 = db0 ! 1
   \<and> snd (handleDelete env0 cf_ok db0 2) ! 1 = db0 ! 1
   \<and> checkExpiredEmails env0 cf_ok zone_west 5000 db0 ! 1 = db0 ! 1
   \<and> snd (handleToggle env0 cf_down db0 2) ! 1 = db0 ! 1
   \<and> snd (handleRecreate env0 cf_ok 5000 db0 2) ! 1
       = (db0 ! 1)\<lparr>status := ''active'', rule_id := ''rule-9'', expires_at := Some (5000 + 3600)\<rparr>"
proof -
  have h1: "primary_key db0"
    by (simp add: primary_key_def db0_def row_a_def row_d_def row_n_def)
  have h2: "1 < length db0" by (simp add: db0_def)
  have h3: "status (db0 ! 1) = ''deleted''" and h4: "rule_id (db0 ! 1) = ''''"
    and h5: "row_id (db0 ! 1) = 2"
    by (simp_all add: db0_def row_d_def)
  have h6: "updateCFRule env0 cf_down '''' True \<noteq> None"
    by (simp add: updateCFRule_def callCFAPI_def cf_down_def)
  have h7: "createCFRule env0 cf_ok (alias_col (db0 ! 1)) True = Inr ''rule-9''"
    by (simp add: createCFRule_def callCFAPI_def cf_ok_def)
  note a = deleted_row_frozen [OF h1 h2 h3 h4, of 2 env0 cf_ok zone_west 5000]
  note b = deleted_row_frozen [OF h1 h2 h3 h4, of 2 env0 cf_down zone_west 5000]
  from a b h1 h2 h3 h4 h5 h6 h7 show ?thesis by simp
qed

subsection \<open>Delete and expire\<close>

text \<open>
  C2. After delete or the expire transition of the cleanup worker, the row should have
  status \<open>deleted\<close> and an empty rule id, whether or not the provider deleted the rule.
  \<open>handleDelete\<close> does that (\<open>handleDelete_clears_row\<close>). The cleanup worker does not:
  its \<open>UPDATE\<close> is sent while the rows of its own \<open>SELECT\<close> are open and fails, so the
  tick leaves the table as it was. In the sample table at 5000 the query returns row 3,
  active and expired, and after the tick row 3 is still active with its rule id.
\<close>

theorem sweeper_update_locked:
  "db0 ! 2 = row_a \<and> is_expired_active zone_utc 5000 row_a
   \<and> select_expired zone_utc 5000 db0 = [(3, ''rule-3'', ''abc12345@example.com'')]
   \<and> checkExpiredEmails env0 cf_ok zone_utc 5000 db0 = db0
   \<and> status (checkExpiredEmails env0 cf_ok zone_utc 5000 db0 ! 2) = ''active''
   \<and> rule_id (checkExpiredEmails env0 cf_ok zone_utc 5000 db0 ! 2) = ''rule-3''"
  by (simp add: checkExpiredEmails_def select_expired_def is_expired_active_def wall_clock_def
      expire_one_def db_Exec_def zone_utc_def db0_def row_a_def row_d_def row_n_def)

subsection \<open>Remote failures\<close>

text \<open>
  C3. When \<open>handleToggle\<close> finds the row and \<open>updateCFRule\<close> returns an error, the
  handler answers 500 with the error's text and the table is the one it started from: the
  \<open>UPDATE\<close> is never reached.
\<close>

theorem toggle_remote_error_no_write:
  assumes "query_row db k = Some r"
    and "updateCFRule e cf (rule_id r) (status r \<noteq> ''active'') = Some err"
  shows "handleToggle e cf db k = (HttpError (''Erro ao atualizar CF: '' @ err) 500, db)"
  using assms by (auto simp: handleToggle_def Let_def)

theorem toggle_remote_error_no_write_witness:
  "query_row db0 3 = Some row_a
   \<and> updateCFRule env0 cf_down (rule_id row_a) (status row_a \<noteq> ''active'') = Some ''timeout''
   \<and> handleToggle env0 cf_down db0 3
       = (HttpError (''Erro ao atualizar CF: '' @ ''timeout'') 500, db0)"
proof -
  have h1: "query_row db0 3 = Some row_a"
    by (simp add: query_row_def db0_def row_a_def row_d_def row_n_def)
  have h2: "updateCFRule env0 cf_down (rule_id row_a) (status row_a \<noteq> ''active'') = Some ''timeout''"
    by (simp add: updateCFRule_def callCFAPI_def cf_down_def)
  from toggle_remote_error_no_write [OF h1 h2] h1 h2 show ?thesis by simp
qed

text \<open>
  C4. When \<open>handleGenerate\<close> is called with \<open>POST\<close> and \<open>createCFRule\<close> returns an error,
  the handler answers 500 with the error's text and no row is inserted: the table is
  unchanged.
\<close>

theorem generate_remote_error_no_insert:
  assumes "createCFRule e cf (aliasPrefix @ ''@'' @ CF_EMAIL_DOMAIN e) True = Inl err"
  shows "handleGenerate e cf ''POST'' aliasPrefix now ts db
           = (HttpError (''Erro Cloudflare: '' @ err) 500, db)"
  using assms by (simp add: handleGenerate_def)

theorem generate_remote_error_no_insert_witness:
  "createCFRule env0 cf_down (''abcdefgh'' @ ''@'' @ CF_EMAIL_DOMAIN env0) True = Inl ''timeout''
   \<and> handleGenerate env0 cf_down ''POST'' ''abcdefgh'' 5000 5001 db0
       = (HttpError (''Erro Cloudflare: '' @ ''timeout'') 500, db0)"
proof -
  have h: "createCFRule env0 cf_down (''abcdefgh'' @ ''@'' @ CF_EMAIL_DOMAIN env0) True = Inl ''timeout''"
    by (simp add: createCFRule_def callCFAPI_def cf_down_def)
  from generate_remote_error_no_insert [OF h, of 5000 5001 db0] h show ?thesis by simp
qed

subsection \<open>The query of the cleanup worker\<close>

text \<open>
  C5. The query of the cleanup worker should return only active rows whose expiry is
  strictly before \<open>now\<close>. It returns only active rows, and only rows whose stored text
  reads a time before \<open>now\<close> (\<open>select_expired_reading\<close>); but the text that
  \<open>handleGenerate\<close> stores reads local time, and the query compares it with UTC. Here
  \<open>handleGenerate\<close> inserts a row at 5000 that expires at 8600. One minute later, at
  5060, a process three hours west of UTC gets the row from its query, an hour before
  the expiry; in UTC the query returns nothing.
\<close>

theorem select_expired_future_row:
  "handleGenerate env0 cf_ok ''POST'' ''abcdefgh'' 5000 5000 [] = (Redirect ''/'' 303, [row_f])
   \<and> status row_f = ''active'' \<and> expires_at row_f = Some 8600
   \<and> select_expired zone_west 5060 [row_f] = [(1, ''rule-9'', ''abcdefgh@example.com'')]
   \<and> select_expired zone_utc 5060 [row_f] = []"
  by (simp add: handleGenerate_def createCFRule_def callCFAPI_def cf_ok_def env0_def
      insert_email_def next_id_def select_expired_def is_expired_active_def wall_clock_def
      zone_west_def zone_utc_def row_f_def)

subsection \<open>Renew\<close>

text \<open>
  C6, as stated, fails on an active row whose \<open>expires_at\<close> is NULL (a row from before
  the column was added): \<open>datetime(NULL, '+1 hour')\<close> is NULL, so the renewal leaves the
  whole table as it was. Row 1 of the sample table is such a row.
\<close>

theorem renew_null_expiry_counterexample:
  "query_row db0 1 = Some row_n \<and> status row_n = ''active'' \<and> expires_at row_n = None
   \<and> handleRenew db0 1 = (Redirect ''/'' 303, db0)"
  by (simp add: handleRenew_def extend_expiry_def query_row_def db0_def row_a_def row_d_def
      row_n_def)

text \<open>
  C6, amended. \<open>handleRenew\<close> always redirects. For the row with the given id: if its
  status is \<open>active\<close> and it has an expiry, the expiry becomes exactly one hour later and
  nothing else changes; if its status is \<open>active\<close> and its expiry is NULL, the row is
  unchanged; if its status is anything else (\<open>inactive\<close>, \<open>deleted\<close>), the row is
  unchanged.
\<close>

theorem renew_extends_active_with_expiry:
  assumes "i < length db" and "row_id (db ! i) = k"
  shows "fst (handleRenew db k) = Redirect ''/'' 303
       \<and> length (snd (handleRenew db k)) = length db
       \<and> (status (db ! i) = ''active'' \<longrightarrow>
            (\<forall>t. expires_at (db ! i) = Some t \<longrightarrow>
                 snd (handleRenew db k) ! i = (db ! i)\<lparr>expires_at := Some (t + 3600)\<rparr>)
            \<and> (expires_at (db ! i) = None \<longrightarrow> snd (handleRenew db k) ! i = db ! i))
       \<and> (status (db ! i) \<noteq> ''active'' \<longrightarrow> snd (handleRenew db k) ! i = db ! i)"
proof -
  have "length (extend_expiry db k) = length db"
    by (simp add: extend_expiry_def)
  moreover have "(db ! i)\<lparr>expires_at := None\<rparr> = db ! i" if "expires_at (db ! i) = None"
    using that by (cases "db ! i") simp
  ultimately show ?thesis
    using assms by (simp add: handleRenew_def extend_expiry_nth)
qed

theorem renew_extends_active_with_expiry_witness:
  "2 < length db0 \<and> row_id (db0 ! 2) = 3 \<and> status (db0 ! 2) = ''active''
   \<and> expires_at (db0 ! 2) = Some 4600
   \<and> snd (handleRenew db0 3) ! 2 = (db0 ! 2)\<lparr>expires_at := Some (4600 + 3600)\<rparr>"
proof -
  have h0: "2 < length db0" by (simp add: db0_def)
  have h1: "row_id (db0 ! 2) = 3" by (simp add: db0_def row_a_def)
  have h2: "status (db0 ! 2) = ''active''" "expires_at (db0 ! 2) = Some 4600"
    by (simp_all add: db0_def row_a_def)
  from renew_extends_active_with_expiry [OF h0 h1] h0 h1 h2 show ?thesis by simp
qed

subsection \<open>Generate\<close>

text \<open>
  C7, as stated, fails: \<open>callCFAPI\<close> returns whatever id the response carries once
  \<open>success\<close> is true, and \<open>handleGenerate\<close> inserts it unchecked. With a response
  \<open>{"success": true}\<close> that has no result id, the call succeeds and the new row has an
  empty rule id.
\<close>

theorem generate_empty_rule_id_counterexample:
  "handleGenerate env0 cf_no_id ''POST'' ''abcdefgh'' 5000 5000 []
     = (Redirect ''/'' 303, [\<lparr>row_id = 1, alias_col = ''abcdefgh@example.com'', rule_id = '''',
          created_at = 5000, expires_at = Some 8600, status = ''active''\<rparr>])"
  by (simp add: handleGenerate_def createCFRule_def callCFAPI_def cf_no_id_def env0_def
      insert_email_def next_id_def)

text \<open>
  C7, amended. When \<open>handleGenerate\<close> answers with a redirect, the table is the old one
  with one new row at the end, under an id no row had. The new row has status \<open>active\<close>;
  its rule id is the string that \<open>createCFRule\<close> returned (so it is non-empty exactly
  when the provider's response carried a non-empty id); and its expiry is the handler's
  clock reading plus one hour. Its \<open>created_at\<close> is the clock reading of the insert, so
  the expiry is within \<open>d\<close> of \<open>created_at\<close> plus one hour whenever the two readings are
  within \<open>d\<close> of each other.
\<close>

theorem generate_success_row:
  assumes "handleGenerate e cf method aliasPrefix now ts db = (Redirect loc code, db')"
  shows "length db' = length db + 1 \<and> butlast db' = db
       \<and> row_id (last db') \<notin> row_id ` set db
       \<and> status (last db') = ''active''
       \<and> createCFRule e cf (aliasPrefix @ ''@'' @ CF_EMAIL_DOMAIN e) True = Inr (rule_id (last db'))
       \<and> expires_at (last db') = Some (now + 3600)
       \<and> created_at (last db') = ts
       \<and> (\<forall>d. \<bar>ts - now\<bar> \<le> d \<longrightarrow>
             (\<exists>t. expires_at (last db') = Some t \<and> \<bar>t - (created_at (last db') + 3600)\<bar> \<le> d))"
proof -
  from assms obtain ruleID where
    r: "createCFRule e cf (aliasPrefix @ ''@'' @ CF_EMAIL_DOMAIN e) True = Inr ruleID"
    and d: "db' = insert_email db (aliasPrefix @ ''@'' @ CF_EMAIL_DOMAIN e) ruleID (now + 3600) ts"
    by (auto simp: handleGenerate_def Let_def split: if_splits sum.splits)
  show ?thesis
    using r next_id_fresh [of db] by (simp add: d insert_email_def abs_minus_commute)
qed

theorem generate_success_row_witness:
  "handleGenerate env0 cf_ok ''POST'' ''abcdefgh'' 5000 5002 db0
     = (Redirect ''/'' 303, db0 @ [\<lparr>row_id = 4, alias_col = ''abcdefgh@example.com'',
          rule_id = ''rule-9'', created_at = 5002, expires_at = Some 8600, status = ''active''\<rparr>])
   \<and> createCFRule env0 cf_ok (''abcdefgh'' @ ''@'' @ CF_EMAIL_DOMAIN env0) True = Inr ''rule-9''"
proof -
  have h: "handleGenerate env0 cf_ok ''POST'' ''abcdefgh'' 5000 5002 db0
     = (Redirect ''/'' 303, db0 @ [\<lparr>row_id = 4, alias_col = ''abcdefgh@example.com'',
          rule_id = ''rule-9'', created_at = 5002, expires_at = Some 8600, status = ''active''\<rparr>])"
    by (simp add: handleGenerate_def createCFRule_def callCFAPI_def cf_ok_def env0_def
        insert_email_def next_id_def db0_def row_a_def row_d_def row_n_def)
  from generate_success_row [OF h] h show ?thesis by simp
qed

subsection \<open>Toggle\<close>

text \<open>
  C8. Take a row found under id \<open>k\<close> whose status is \<open>active\<close>, with any rule id, and
  providers that accept the disabling and then the enabling of that rule. Both
  \<open>handleToggle\<close> calls redirect, the row is \<open>inactive\<close> in between, and after the second
  call the lookup of \<open>k\<close> gives the row exactly as it was: status \<open>active\<close>, same rule
  id. With distinct ids the whole table is back as it was.
\<close>

theorem toggle_twice_roundtrip:
  assumes "query_row db k = Some r" and "status r = ''active''"
    and "updateCFRule e cf1 (rule_id r) False = None"
    and "updateCFRule e cf2 (rule_id r) True = None"
  shows "fst (handleToggle e cf1 db k) = Redirect ''/'' 303
       \<and> query_row (snd (handleToggle e cf1 db k)) k = Some (r\<lparr>status := ''inactive''\<rparr>)
       \<and> fst (handleToggle e cf2 (snd (handleToggle e cf1 db k)) k) = Redirect ''/'' 303
       \<and> query_row (snd (handleToggle e cf2 (snd (handleToggle e cf1 db k)) k)) k = Some r
       \<and> (primary_key db \<longrightarrow> snd (handleToggle e cf2 (snd (handleToggle e cf1 db k)) k) = db)"
proof -
  have t1: "handleToggle e cf1 db k = (Redirect ''/'' 303, set_status db ''inactive'' k)"
    using assms by (simp add: handleToggle_def)
  have q1: "query_row (set_status db ''inactive'' k) k = Some (r\<lparr>status := ''inactive''\<rparr>)"
    using assms(1) by (simp add: query_row_set_status)
  have t2: "handleToggle e cf2 (set_status db ''inactive'' k) k
              = (Redirect ''/'' 303, set_status (set_status db ''inactive'' k) ''active'' k)"
    using assms(4) by (simp add: handleToggle_def q1)
  have q2: "query_row (set_status (set_status db ''inactive'' k) ''active'' k) k = Some r"
  proof -
    have "query_row (set_status (set_status db ''inactive'' k) ''active'' k) k
            = Some (r\<lparr>status := ''inactive''\<rparr>\<lparr>status := ''active''\<rparr>)"
      by (simp only: query_row_set_status [of "set_status db ''inactive'' k"] q1 option.map)
    also have "r\<lparr>status := ''inactive''\<rparr>\<lparr>status := ''active''\<rparr> = r"
      using assms(2) by simp
    finally show ?thesis .
  qed
  have restored: "set_status (set_status db ''inactive'' k) ''active'' k = db" if "primary_key db"
    using set_status_restore [OF that assms(1), of "''inactive''"] assms(2) by simp
  show ?thesis by (simp add: t1 t2 q1 q2 restored)
qed

theorem toggle_twice_roundtrip_witness:
  "query_row db0 3 = Some row_a \<and> status row_a = ''active''
   \<and> updateCFRule env0 cf_ok (rule_id row_a) False = None
   \<and> updateCFRule env0 cf_ok (rule_id row_a) True = None
   \<and> primary_key db0
   \<and> query_row (snd (handleToggle env0 cf_ok db0 3)) 3 = Some (row_a\<lparr>status := ''inactive''\<rparr>)
   \<and> snd (handleToggle env0 cf_ok (snd (handleToggle env0 cf_ok db0 3)) 3) = db0"
proof -
  have h1: "query_row db0 3 = Some row_a"
    by (simp add: query_row_def db0_def row_a_def row_d_def row_n_def)
  have h2: "status row_a = ''active''" by (simp add: row_a_def)
  have h3: "updateCFRule env0 cf_ok (rule_id row_a) False = None"
    and h4: "updateCFRule env0 cf_ok (rule_id row_a) True = None"
    by (simp_all add: updateCFRule_def callCFAPI_def cf_ok_def)
  have h5: "primary_key db0"
    by (simp add: primary_key_def db0_def row_a_def row_d_def row_n_def)
  from toggle_twice_roundtrip [OF h1 h2 h3 h4] h1 h2 h3 h4 h5 show ?thesis by simp
qed

subsection \<open>The listing\<close>

text \<open>
  C9. When \<open>handleIndex\<close> renders the page of a table with distinct ids, the ids of its
  entries are the ids of the table's rows, each once. For any two entries at positions
  \<open>i < j\<close>, take the rows \<open>ri\<close> and \<open>rj\<close> that the table holds under their ids; the
  entries carry the creation times of these rows. If \<open>rj\<close> is active then so is \<open>ri\<close>
  (active rows come before all others), and if both are active or neither is, entry \<open>i\<close>
  was created no earlier than entry \<open>j\<close> (newest first within each group).
\<close>

theorem index_active_first_newest_first:
  assumes "primary_key db" and "handleIndex tmpl db = Page es"
  shows "mset (map ID es) = mset (map row_id db)
       \<and> (\<forall>i j. i < j \<and> j < length es \<longrightarrow>
            (\<exists>ri rj. query_row db (ID (es ! i)) = Some ri \<and> query_row db (ID (es ! j)) = Some rj
               \<and> CreatedAt (es ! i) = created_at ri \<and> CreatedAt (es ! j) = created_at rj
               \<and> (status rj = ''active'' \<longrightarrow> status ri = ''active'')
               \<and> ((status ri = ''active'') = (status rj = ''active'')
                   \<longrightarrow> CreatedAt (es ! j) \<le> CreatedAt (es ! i))))"
proof -
  define rs where "rs = sort_key order_key db"
  from assms(2) have es: "es = map scan_entry rs"
    by (simp add: handleIndex_def rs_def split: option.splits)
  have ids: "map ID es = map row_id rs"
    by (simp add: es scan_entry_def)
  have "mset (map row_id rs) = mset (map row_id db)"
    by (simp add: rs_def)
  then have all: "mset (map ID es) = mset (map row_id db)"
    by (simp only: ids)
  have "sorted (map order_key rs)" by (simp add: rs_def)
  then have le: "order_key (rs ! i) \<le> order_key (rs ! j)" if "i < j" "j < length rs" for i j
    using that by (auto simp: sorted_iff_nth_mono)
  have found: "query_row db (ID (es ! i)) = Some (rs ! i) \<and> CreatedAt (es ! i) = created_at (rs ! i)"
    if "i < length es" for i
  proof -
    from that have i: "i < length rs" by (simp add: es)
    then have "rs ! i \<in> set db"
      using nth_mem [OF i] by (simp add: rs_def)
    with assms(1) have "query_row db (row_id (rs ! i)) = Some (rs ! i)"
      by (rule query_row_mem)
    with i show ?thesis by (simp add: es scan_entry_def)
  qed
  have order: "\<exists>ri rj. query_row db (ID (es ! i)) = Some ri \<and> query_row db (ID (es ! j)) = Some rj
               \<and> CreatedAt (es ! i) = created_at ri \<and> CreatedAt (es ! j) = created_at rj
               \<and> (status rj = ''active'' \<longrightarrow> status ri = ''active'')
               \<and> ((status ri = ''active'') = (status rj = ''active'')
                   \<longrightarrow> CreatedAt (es ! j) \<le> CreatedAt (es ! i))"
    if "i < j" "j < length es" for i j
  proof -
    from that have j: "j < length rs" and i: "i < length es" by (simp_all add: es)
    from le [OF that(1) j]
    have "(status (rs ! j) = ''active'' \<longrightarrow> status (rs ! i) = ''active'')
        \<and> ((status (rs ! i) = ''active'') = (status (rs ! j) = ''active'')
            \<longrightarrow> created_at (rs ! j) \<le> created_at (rs ! i))"
      by (auto simp: order_key_le)
    with found [OF i] found [OF that(2)] show ?thesis by auto
  qed
  from all order show ?thesis by blast
qed

theorem index_active_first_newest_first_witness:
  "primary_key db0
   \<and> handleIndex None db0
       = Page [\<lparr>ID = 3, Alias = ''abc12345@example.com'', RuleID = ''rule-3'', CreatedAt = 1000,
                 ExpiresAt = zero_time, Status = ''''\<rparr>,
               \<lparr>ID = 1, Alias = ''legacy00@example.com'', RuleID = ''rule-1'', CreatedAt = 100,
                 ExpiresAt = zero_time, Status = ''''\<rparr>,
               \<lparr>ID = 2, Alias = ''old00000@example.com'', RuleID = '''', CreatedAt = 500,
                 ExpiresAt = zero_time, Status = ''''\<rparr>]
   \<and> mset [3, 1, 2] = mset (map row_id db0)
   \<and> query_row db0 3 = Some row_a \<and> query_row db0 1 = Some row_n \<and> query_row db0 2 = Some row_d
   \<and> status row_a = ''active'' \<and> status row_n = ''active'' \<and> status row_d = ''deleted''"
proof -
  have h1: "primary_key db0"
    by (simp add: primary_key_def db0_def row_a_def row_d_def row_n_def)
  have h2: "handleIndex None db0
       = Page [\<lparr>ID = 3, Alias = ''abc12345@example.com'', RuleID = ''rule-3'', CreatedAt = 1000,
                 ExpiresAt = zero_time, Status = ''''\<rparr>,
               \<lparr>ID = 1, Alias = ''legacy00@example.com'', RuleID = ''rule-1'', CreatedAt = 100,
                 ExpiresAt = zero_time, Status = ''''\<rparr>,
               \<lparr>ID = 2, Alias = ''old00000@example.com'', RuleID = '''', CreatedAt = 500,
                 ExpiresAt = zero_time, Status = ''''\<rparr>]"
    by (simp add: handleIndex_def scan_entry_def db0_def order_key_def row_a_def row_d_def
        row_n_def)
  have q: "query_row db0 3 = Some row_a" "query_row db0 1 = Some row_n"
    "query_row db0 2 = Some row_d"
    by (simp_all add: query_row_def db0_def row_a_def row_d_def row_n_def)
  have s: "status row_a = ''active''" "status row_n = ''active''" "status row_d = ''deleted''"
    by (simp_all add: row_a_def row_n_def row_d_def)
  from index_active_first_newest_first [OF h1 h2]
  have "mset [3, 1, 2] = mset (map row_id db0)" by simp
  with h1 h2 q s show ?thesis by simp
qed

subsection \<open>Ids that no row has\<close>

text \<open>
  C10. For an id that no row of the table has, \<open>handleDelete\<close> and \<open>handleRenew\<close> both
  answer with the redirect to \<open>/\<close>, never with an error, and return the table as it was.
\<close>

theorem absent_id_delete_renew:
  assumes "k \<notin> row_id ` set db"
  shows "handleDelete e cf db k = (Redirect ''/'' 303, db)
         \<and> handleRenew db k = (Redirect ''/'' 303, db)"
  using assms
  by (simp add: handleDelete_def handleRenew_def query_row_None mark_deleted_absent
      extend_expiry_absent)

theorem absent_id_delete_renew_witness:
  "7 \<notin> row_id ` set db0 \<and> handleDelete env0 cf_down db0 7 = (Redirect ''/'' 303, db0)
     \<and> handleRenew db0 7 = (Redirect ''/'' 303, db0)"
proof -
  have h: "7 \<notin> row_id ` set db0"
    by (simp add: db0_def row_a_def row_d_def row_n_def)
  from absent_id_delete_renew [OF h, of env0 cf_down] h show ?thesis by simp
qed

end
